theory Spec2Isabelle
  imports Complex_Main "HOL-Library.Char_ord" "HOL-Library.List_Lexorder"
    "HOL-Library.Product_Lexorder" "HOL-Library.Log_Nat"
begin

section \<open>The indicator engine of \<^verbatim>\<open>src/preprocess.py\<close>\<close>

text \<open>
  The development embeds \<^verbatim>\<open>preprocess_sbp_data\<close> from the data frame obtained after
  \<^verbatim>\<open>pd.read_excel\<close> and \<^verbatim>\<open>pd.to_numeric(..., errors='coerce')\<close> up to the returned
  result frame. The frame is carried in exact reals: a nullable number (pandas
  \<^verbatim>\<open>NaN\<close>) is a \<^typ>\<open>real option\<close> with \<^term>\<open>None\<close> for \<^verbatim>\<open>NaN\<close>. A pandas
  \<^verbatim>\<open>Series\<close> over \<^verbatim>\<open>pivoted.index\<close> is a function of the index label, and
  arithmetic on series is pointwise. Exact reals neither round nor overflow, so they
  serve for what rests on sums, comparisons and the propagation of \<^verbatim>\<open>NaN\<close>. What
  depends on the value a float64 quotient or product takes is stated over the binary64
  reading of the three primary ratios, given in a section of its own.
\<close>

subsection \<open>Raw records and the pivot\<close>

type_synonym period_key = "string \<times> int \<times> int"

type_synonym column_label = "string \<times> string"

text \<open>One line of the input frame; \<open>Valor\<close> is \<^term>\<open>None\<close> where coercion gave \<^verbatim>\<open>NaN\<close>.\<close>

record raw_record =
  Subgrupo :: string
  Categoria :: string
  Indicador :: string
  Ano :: int
  Mes :: int
  Valor :: "real option"

definition key_of :: "raw_record \<Rightarrow> period_key" where
  "key_of r = (Subgrupo r, Ano r, Mes r)"

definition col_of :: "raw_record \<Rightarrow> column_label" where
  "col_of r = (Categoria r, Indicador r)"

text \<open>The contribution of a record to a sum: \<^verbatim>\<open>aggfunc="sum"\<close> skips \<^verbatim>\<open>NaN\<close>.\<close>

definition valor_or_zero :: "raw_record \<Rightarrow> real" where
  "valor_or_zero r = (case Valor r of None \<Rightarrow> 0 | Some v \<Rightarrow> v)"

definition group_of :: "raw_record list \<Rightarrow> period_key \<Rightarrow> column_label \<Rightarrow> raw_record list" where
  "group_of df k c = filter (\<lambda>r. key_of r = k \<and> col_of r = c) df"

record pivot =
  index :: "period_key list"
  columns :: "column_label list"
  cell :: "period_key \<Rightarrow> column_label \<Rightarrow> real option"

text \<open>
  \<^verbatim>\<open>df.pivot_table(index=[Subgrupo, Ano, Mes], columns=[Categoria, Indicador],
  values="Valor", aggfunc="sum")\<close>: the rows are the distinct keys in sorted order, the
  columns the distinct (category, indicator) pairs in sorted order, and a cell holds the
  sum of its group, or \<^verbatim>\<open>NaN\<close> when no record of the input falls into it.
\<close>

definition pivot_table :: "raw_record list \<Rightarrow> pivot" where
  "pivot_table df =
     \<lparr> index = sort (remdups (map key_of df)),
       columns = sort (remdups (map col_of df)),
       cell = (\<lambda>k c. if group_of df k c = [] then None
                      else Some (sum_list (map valor_or_zero (group_of df k c)))) \<rparr>"

text \<open>The helper \<^verbatim>\<open>get_col\<close>: the column with \<^verbatim>\<open>fillna(0)\<close>, or a series of zeros.\<close>

definition get_col :: "pivot \<Rightarrow> string \<Rightarrow> string \<Rightarrow> period_key \<Rightarrow> real" where
  "get_col pivoted category indicator k =
     (if (category, indicator) \<in> set (columns pivoted)
      then (case cell pivoted k (category, indicator) of None \<Rightarrow> 0 | Some v \<Rightarrow> v)
      else 0)"

text \<open>
  \<^verbatim>\<open>pivoted[category].sum(axis=1)\<close> behind the test that the category occurs at level 0
  of the columns: the row sum over the columns of that category, skipping \<^verbatim>\<open>NaN\<close>.
\<close>

definition category_total :: "pivot \<Rightarrow> string \<Rightarrow> period_key \<Rightarrow> real" where
  "category_total pivoted category k =
     (if category \<in> set (map fst (columns pivoted))
      then sum_list (map (\<lambda>c. case cell pivoted k c of None \<Rightarrow> 0 | Some v \<Rightarrow> v)
                         (filter (\<lambda>c. fst c = category) (columns pivoted)))
      else 0)"

subsection \<open>Arithmetic with \<^verbatim>\<open>NaN\<close>\<close>

text \<open>\<^verbatim>\<open>s.replace({0: np.nan})\<close> on one entry.\<close>

definition replace_zero_nan :: "real \<Rightarrow> real option" where
  "replace_zero_nan x = (if x = 0 then None else Some x)"

text \<open>
  Division of a number by a nullable number and the product of two nullable numbers, in
  exact arithmetic. Both divisions get a denominator that went through
  \<^const>\<open>replace_zero_nan\<close>, so it is never \<^term>\<open>Some 0\<close>. The float64 operations,
  with rounding and infinities, are \<open>fdiv\<close> and \<open>fmul\<close> below.
\<close>

definition div_nan :: "real \<Rightarrow> real option \<Rightarrow> real option" where
  "div_nan a d = (case d of None \<Rightarrow> None | Some b \<Rightarrow> Some (a / b))"

definition mul_nan :: "real option \<Rightarrow> real option \<Rightarrow> real option" where
  "mul_nan x y = (case x of None \<Rightarrow> None
                  | Some a \<Rightarrow> (case y of None \<Rightarrow> None | Some b \<Rightarrow> Some (a * b)))"

text \<open>\<^verbatim>\<open>np.where(d != 0, a / d, np.nan)\<close> on one entry.\<close>

definition ratio_or_nan :: "real \<Rightarrow> real \<Rightarrow> real option" where
  "ratio_or_nan a d = (if d \<noteq> 0 then Some (a / d) else None)"

subsection \<open>Basic metrics\<close>

definition net_income_series :: "pivot \<Rightarrow> period_key \<Rightarrow> real" where
  "net_income_series pivoted = get_col pivoted ''Patrimonio'' ''Utilidad De Periodo''"

definition total_assets_series :: "pivot \<Rightarrow> period_key \<Rightarrow> real" where
  "total_assets_series pivoted = get_col pivoted ''Patrimonio'' ''Pasivo Y Patrimonio''"

definition capital :: "pivot \<Rightarrow> period_key \<Rightarrow> real" where
  "capital pivoted = get_col pivoted ''Patrimonio'' ''Capital''"

definition other_reserves :: "pivot \<Rightarrow> period_key \<Rightarrow> real" where
  "other_reserves pivoted = get_col pivoted ''Patrimonio'' ''Otras Reservas''"

definition previous_net_income :: "pivot \<Rightarrow> period_key \<Rightarrow> real" where
  "previous_net_income pivoted =
     get_col pivoted ''Patrimonio'' ''Utilidad De Periodos Anteriores''"

definition market_value_gain :: "pivot \<Rightarrow> period_key \<Rightarrow> real" where
  "market_value_gain pivoted =
     get_col pivoted ''Patrimonio'' ''Ganancia O Perdida En Valores Disponible Para La Venta''"

definition equity_series :: "pivot \<Rightarrow> period_key \<Rightarrow> real" where
  "equity_series pivoted k =
     capital pivoted k + other_reserves pivoted k + previous_net_income pivoted k
       + market_value_gain pivoted k + net_income_series pivoted k"

definition roa :: "pivot \<Rightarrow> period_key \<Rightarrow> real option" where
  "roa pivoted k =
     div_nan (net_income_series pivoted k) (replace_zero_nan (total_assets_series pivoted k))"

definition leverage :: "pivot \<Rightarrow> period_key \<Rightarrow> real option" where
  "leverage pivoted k =
     div_nan (total_assets_series pivoted k) (replace_zero_nan (equity_series pivoted k))"

definition roe :: "pivot \<Rightarrow> period_key \<Rightarrow> real option" where
  "roe pivoted k = mul_nan (roa pivoted k) (leverage pivoted k)"

subsection \<open>The primary ratios in binary64\<close>

text \<open>
  Lines 44 to 46 of the source divide and multiply float64 series. A float64 value is a
  finite number, one of the two infinities, or \<^verbatim>\<open>NaN\<close>. The two zeros of binary64 are
  the one value \<open>Finite 0\<close>: they compare equal, \<^verbatim>\<open>replace({0: np.nan})\<close> turns both
  into \<^verbatim>\<open>NaN\<close>, so neither is ever a denominator, and no other operation of these
  lines tells them apart.
\<close>

datatype double = Finite real | PosInf | NegInf | NaN

text \<open>The nearest integer, a tie going to the even one.\<close>

definition round_half_even :: "real \<Rightarrow> int" where
  "round_half_even m =
     (let f = \<lfloor>m\<rfloor>; d = m - of_int f
      in if d < 1 / 2 then f else if 1 / 2 < d then f + 1 else if even f then f else f + 1)"

text \<open>
  The binary exponent of a nonzero number: the \<open>e\<close> with \<open>2^e \<le> \<bar>x\<bar> < 2^(e+1)\<close>,
  computed from bit lengths (lemma \<open>binary_exponent_bracket\<close> below).
\<close>

definition binary_exponent :: "real \<Rightarrow> int" where
  "binary_exponent x =
     (if 1 \<le> \<bar>x\<bar> then bitlen \<lfloor>\<bar>x\<bar>\<rfloor> - 1 else - bitlen (\<lceil>1 / \<bar>x\<bar>\<rceil> - 1))"

text \<open>
  Rounding to binary64, to nearest with ties to even. Zero stays zero. A magnitude of at
  least \<open>2^1024 - 2^970\<close>, the largest finite value plus half a unit in its last
  place, overflows to an infinity. Any other number goes to the nearest multiple of
  \<open>2^(e-52)\<close>, where \<open>e\<close> is its binary exponent and at least \<open>-1022\<close>: below
  \<open>2^(-1022)\<close> the grid is the subnormal one of step \<open>2^(-1074)\<close>.
\<close>

definition round_double :: "real \<Rightarrow> double" where
  "round_double x =
     (if x = 0 then Finite 0
      else if 2 ^ 1024 - 2 ^ 970 \<le> \<bar>x\<bar> then (if 0 < x then PosInf else NegInf)
      else (let e = max (binary_exponent x) (- 1022); q = 2 powi (e - 52)
            in Finite (sgn x * of_int (round_half_even (\<bar>x\<bar> / q)) * q)))"

text \<open>
  Division and multiplication of float64 values as numpy performs them: no exception, an
  invalid operation gives \<^verbatim>\<open>NaN\<close>, a finite result is rounded. Over a zero
  denominator the infinity has the sign it has over \<^verbatim>\<open>+0.0\<close>; the program does not
  get there, its denominators having passed \<^verbatim>\<open>replace\<close>.
\<close>

fun fdiv :: "double \<Rightarrow> double \<Rightarrow> double" where
  "fdiv NaN b = NaN"
| "fdiv a NaN = NaN"
| "fdiv (Finite x) (Finite y) =
     (if y = 0 then (if x = 0 then NaN else if 0 < x then PosInf else NegInf)
      else round_double (x / y))"
| "fdiv (Finite x) PosInf = Finite 0"
| "fdiv (Finite x) NegInf = Finite 0"
| "fdiv PosInf (Finite y) = (if y < 0 then NegInf else PosInf)"
| "fdiv NegInf (Finite y) = (if y < 0 then PosInf else NegInf)"
| "fdiv PosInf PosInf = NaN"
| "fdiv PosInf NegInf = NaN"
| "fdiv NegInf PosInf = NaN"
| "fdiv NegInf NegInf = NaN"

fun fmul :: "double \<Rightarrow> double \<Rightarrow> double" where
  "fmul NaN b = NaN"
| "fmul a NaN = NaN"
| "fmul (Finite x) (Finite y) = round_double (x * y)"
| "fmul (Finite x) PosInf = (if x = 0 then NaN else if 0 < x then PosInf else NegInf)"
| "fmul (Finite x) NegInf = (if x = 0 then NaN else if 0 < x then NegInf else PosInf)"
| "fmul PosInf (Finite y) = (if y = 0 then NaN else if 0 < y then PosInf else NegInf)"
| "fmul NegInf (Finite y) = (if y = 0 then NaN else if 0 < y then NegInf else PosInf)"
| "fmul PosInf PosInf = PosInf"
| "fmul PosInf NegInf = NegInf"
| "fmul NegInf PosInf = NegInf"
| "fmul NegInf NegInf = PosInf"

text \<open>\<^verbatim>\<open>s.replace({0: np.nan})\<close> on one float64 entry.\<close>

definition replace_zero_nan64 :: "double \<Rightarrow> double" where
  "replace_zero_nan64 d = (if d = Finite 0 then NaN else d)"

text \<open>
  \<^verbatim>\<open>roa = net_income / total_assets.replace({0: np.nan})\<close>,
  \<^verbatim>\<open>leverage = total_assets / equity.replace({0: np.nan})\<close> and
  \<^verbatim>\<open>roe = roa * leverage\<close> on the float64 entries of one row.
\<close>

definition roa64 :: "double \<Rightarrow> double \<Rightarrow> double" where
  "roa64 income assets = fdiv income (replace_zero_nan64 assets)"

definition leverage64 :: "double \<Rightarrow> double \<Rightarrow> double" where
  "leverage64 assets eqty = fdiv assets (replace_zero_nan64 eqty)"

definition roe64 :: "double \<Rightarrow> double \<Rightarrow> double \<Rightarrow> double" where
  "roe64 income assets eqty =
     fmul (roa64 income assets) (leverage64 assets eqty)"

subsection \<open>Classification by quantiles of the return on equity\<close>

text \<open>\<^verbatim>\<open>s.dropna()\<close> on the values of a series, in index order.\<close>

definition dropna :: "real option list \<Rightarrow> real list" where
  "dropna xs = List.map_filter (\<lambda>x. x) xs"

text \<open>
  Linear interpolation in a sorted list at the fractional position \<open>h\<close>: the value at
  \<open>\<lfloor>h\<rfloor>\<close> plus the fraction of the step to its successor, the successor's position
  clipped to the last one.
\<close>

definition interpolate :: "real list \<Rightarrow> real \<Rightarrow> real" where
  "interpolate s h =
     (let lo = nat \<lfloor>h\<rfloor>; hi = min (lo + 1) (length s - 1)
      in s ! lo + (s ! hi - s ! lo) * (h - real lo))"

text \<open>
  \<^verbatim>\<open>Series.quantile(q)\<close> of the library with its default linear interpolation, for a
  series without \<^verbatim>\<open>NaN\<close>: position \<open>(n - 1) * q\<close> in the sorted values. The program
  calls it behind \<^verbatim>\<open>len(temp_roe) > 2\<close> only, so the list is never empty there.
\<close>

definition quantile :: "real list \<Rightarrow> real \<Rightarrow> real" where
  "quantile xs q = interpolate (sort xs) ((real (length xs) - 1) * q)"

definition thresholds :: "real list \<Rightarrow> real \<times> real" where
  "thresholds temp_roe =
     (if length temp_roe > 2 then (quantile temp_roe (33 / 100), quantile temp_roe (66 / 100))
      else (0, 0))"

definition classify_roe :: "real \<Rightarrow> real \<Rightarrow> real option \<Rightarrow> string" where
  "classify_roe q33 q66 x =
     (case x of None \<Rightarrow> ''Unknown''
      | Some v \<Rightarrow> if v \<le> q33 then ''Low performance''
                  else if v \<le> q66 then ''Medium performance''
                  else ''High performance'')"

definition temp_roe :: "pivot \<Rightarrow> real list" where
  "temp_roe pivoted = dropna (map (roe pivoted) (index pivoted))"

definition classification_series :: "pivot \<Rightarrow> period_key \<Rightarrow> string" where
  "classification_series pivoted k =
     (let (q33, q66) = thresholds (temp_roe pivoted) in classify_roe q33 q66 (roe pivoted k))"

subsection \<open>Additional ratios\<close>

definition liquidity_ratio_series :: "pivot \<Rightarrow> period_key \<Rightarrow> real option" where
  "liquidity_ratio_series pivoted k =
     ratio_or_nan (category_total pivoted ''Activos Liquidos'' k)
                  (category_total pivoted ''Depositos'' k)"

definition deposit_diversity_series :: "pivot \<Rightarrow> period_key \<Rightarrow> real option" where
  "deposit_diversity_series pivoted k =
     ratio_or_nan (get_col pivoted ''Depositos'' ''De Particulares'' k)
                  (get_col pivoted ''Depositos'' ''De Bancos'' k)"

definition deposit_view_to_plazo_series :: "pivot \<Rightarrow> period_key \<Rightarrow> real option" where
  "deposit_view_to_plazo_series pivoted k =
     ratio_or_nan (get_col pivoted ''Depositos'' ''A La Vista'' k)
                  (get_col pivoted ''Depositos'' ''A Plazo'' k)"

definition credit_locales :: "pivot \<Rightarrow> period_key \<Rightarrow> real" where
  "credit_locales pivoted = get_col pivoted ''Cartera Crediticia'' ''Locales''"

definition credit_total :: "pivot \<Rightarrow> period_key \<Rightarrow> real" where
  "credit_total pivoted k =
     credit_locales pivoted k + get_col pivoted ''Cartera Crediticia'' ''Extranjero'' k"

definition coverage_ratio_series :: "pivot \<Rightarrow> period_key \<Rightarrow> real option" where
  "coverage_ratio_series pivoted k =
     ratio_or_nan (get_col pivoted ''Cartera Crediticia'' ''Menos Provisiones'' k)
                  (credit_total pivoted k)"

definition total_obligations :: "pivot \<Rightarrow> period_key \<Rightarrow> real" where
  "total_obligations pivoted k =
     get_col pivoted ''Obligaciones'' ''Locales'' k
       + get_col pivoted ''Obligaciones'' ''Extranjero'' k
       + get_col pivoted ''Otros Pasivos'' ''Locales'' k
       + get_col pivoted ''Otros Pasivos'' ''Extranjero'' k"

definition leverage_ratio_extra_series :: "pivot \<Rightarrow> period_key \<Rightarrow> real option" where
  "leverage_ratio_extra_series pivoted k =
     ratio_or_nan (total_obligations pivoted k) (equity_series pivoted k)"

definition capitalization_ratio_series :: "pivot \<Rightarrow> period_key \<Rightarrow> real option" where
  "capitalization_ratio_series pivoted k =
     ratio_or_nan (equity_series pivoted k) (total_assets_series pivoted k)"

definition denom_adjusted :: "pivot \<Rightarrow> period_key \<Rightarrow> real" where
  "denom_adjusted pivoted k =
     credit_locales pivoted k
       - get_col pivoted ''Cartera Crediticia'' ''Menos Provisiones Locales'' k"

text \<open>
  \<^verbatim>\<open>np.where(denom_adjusted != 0, roe * (credit_locales / denom_adjusted), np.nan)\<close>:
  the product keeps the \<^verbatim>\<open>NaN\<close> of \<^verbatim>\<open>roe\<close>.
\<close>

definition adjusted_ROE_series :: "pivot \<Rightarrow> period_key \<Rightarrow> real option" where
  "adjusted_ROE_series pivoted k =
     (if denom_adjusted pivoted k \<noteq> 0
      then mul_nan (roe pivoted k) (Some (credit_locales pivoted k / denom_adjusted pivoted k))
      else None)"

subsection \<open>The result frame\<close>

record row =
  Bank :: string
  Year :: int
  Month :: int
  net_income :: real
  total_assets :: real
  equity :: real
  ROA :: "real option"
  Leverage :: "real option"
  ROE :: "real option"
  classification :: string
  liquidity_ratio :: "real option"
  deposit_diversity :: "real option"
  deposit_view_to_plazo :: "real option"
  coverage_ratio :: "real option"
  leverage_ratio_extra :: "real option"
  capitalization_ratio :: "real option"
  adjusted_ROE :: "real option"

definition result_row :: "pivot \<Rightarrow> period_key \<Rightarrow> row" where
  "result_row pivoted k =
     \<lparr> Bank = fst k, Year = fst (snd k), Month = snd (snd k),
       net_income = net_income_series pivoted k,
       total_assets = total_assets_series pivoted k,
       equity = equity_series pivoted k,
       ROA = roa pivoted k,
       Leverage = leverage pivoted k,
       ROE = roe pivoted k,
       classification = classification_series pivoted k,
       liquidity_ratio = liquidity_ratio_series pivoted k,
       deposit_diversity = deposit_diversity_series pivoted k,
       deposit_view_to_plazo = deposit_view_to_plazo_series pivoted k,
       coverage_ratio = coverage_ratio_series pivoted k,
       leverage_ratio_extra = leverage_ratio_extra_series pivoted k,
       capitalization_ratio = capitalization_ratio_series pivoted k,
       adjusted_ROE = adjusted_ROE_series pivoted k \<rparr>"

definition preprocess_sbp_data :: "raw_record list \<Rightarrow> row list" where
  "preprocess_sbp_data df = (let pivoted = pivot_table df in map (result_row pivoted) (index pivoted))"

text \<open>The period key written in a row of the result.\<close>

definition row_key :: "row \<Rightarrow> period_key" where
  "row_key r = (Bank r, Year r, Month r)"

text \<open>The position of a label in the order low, medium, high of the three tiers.\<close>

definition label_rank :: "string \<Rightarrow> nat" where
  "label_rank l =
     (if l = ''Low performance'' then 0
      else if l = ''Medium performance'' then 1
      else if l = ''High performance'' then 2
      else 3)"

subsection \<open>Sample input frames\<close>

text \<open>
  Small frames on which the engine is evaluated. \<open>two_banks\<close> yields two rows with a
  return on equity; \<open>five_banks\<close> adds a bank with a repeated and a missing-valued line
  item, a bank without total assets and a bank without equity. \<open>overflow_bank\<close> has no
  net income, large total assets and a small capital; \<open>third_bank\<close> has net income 1,
  capital 2 and total assets 10. All their values are binary64 numbers and every sum of
  the pivot on them is exact in binary64.
\<close>

definition line_item :: "string \<Rightarrow> string \<Rightarrow> real option \<Rightarrow> string \<Rightarrow> raw_record" where
  "line_item c i v b =
     \<lparr> Subgrupo = b, Categoria = c, Indicador = i, Ano = 2023, Mes = 1, Valor = v \<rparr>"

definition two_banks :: "raw_record list" where
  "two_banks =
     [line_item ''Patrimonio'' ''Utilidad De Periodo'' (Some 1) ''B'',
      line_item ''Patrimonio'' ''Capital'' (Some 19) ''B'',
      line_item ''Patrimonio'' ''Pasivo Y Patrimonio'' (Some 100) ''B'',
      line_item ''Patrimonio'' ''Utilidad De Periodo'' (Some (- 1)) ''A'',
      line_item ''Patrimonio'' ''Capital'' (Some 11) ''A'',
      line_item ''Patrimonio'' ''Pasivo Y Patrimonio'' (Some 50) ''A'']"

definition five_banks :: "raw_record list" where
  "five_banks = two_banks @
     [line_item ''Patrimonio'' ''Utilidad De Periodo'' (Some 2) ''C'',
      line_item ''Patrimonio'' ''Capital'' (Some 3) ''C'',
      line_item ''Patrimonio'' ''Capital'' (Some 5) ''C'',
      line_item ''Patrimonio'' ''Pasivo Y Patrimonio'' (Some 40) ''C'',
      line_item ''Patrimonio'' ''Otras Reservas'' None ''C'',
      line_item ''Patrimonio'' ''Capital'' (Some 5) ''D'',
      line_item ''Cartera Crediticia'' ''Locales'' (Some 7) ''D'',
      line_item ''Patrimonio'' ''Pasivo Y Patrimonio'' (Some 30) ''E'']"

definition overflow_bank :: "raw_record list" where
  "overflow_bank =
     [line_item ''Patrimonio'' ''Capital'' (Some (1 / 2 ^ 512)) ''X'',
      line_item ''Patrimonio'' ''Pasivo Y Patrimonio'' (Some (2 ^ 512)) ''X'']"


section \<open>Properties\<close>

subsection \<open>Interpolation and quantiles\<close>

lemma nat_floor_facts:
  fixes h :: real
  assumes "0 \<le> h"
  shows "real (nat \<lfloor>h\<rfloor>) \<le> h" and "h - real (nat \<lfloor>h\<rfloor>) < 1"
proof -
  from assms have "0 \<le> \<lfloor>h\<rfloor>" by simp
  then have eq: "real (nat \<lfloor>h\<rfloor>) = of_int \<lfloor>h\<rfloor>" by simp
  show "real (nat \<lfloor>h\<rfloor>) \<le> h" unfolding eq by simp
  show "h - real (nat \<lfloor>h\<rfloor>) < 1" unfolding eq by linarith
qed

lemma nat_floor_le_bound:
  fixes h :: real
  assumes "0 \<le> h" and "h \<le> real m"
  shows "nat \<lfloor>h\<rfloor> \<le> m"
proof -
  have "real (nat \<lfloor>h\<rfloor>) \<le> real m"
    using nat_floor_facts(1) [OF assms(1)] assms(2) by linarith
  then show ?thesis by simp
qed

lemma interpolate_bounds:
  assumes srt: "sorted s" and ne: "s \<noteq> []" and h0: "0 \<le> h" and hn: "h \<le> real (length s - 1)"
  shows "s ! nat \<lfloor>h\<rfloor> \<le> interpolate s h"
    and "interpolate s h \<le> s ! min (nat \<lfloor>h\<rfloor> + 1) (length s - 1)"
proof -
  define lo where "lo = nat \<lfloor>h\<rfloor>"
  define hi where "hi = min (lo + 1) (length s - 1)"
  define fr where "fr = h - real lo"
  have lo_le: "lo \<le> length s - 1"
    unfolding lo_def by (rule nat_floor_le_bound [OF h0 hn])
  have lo_hi: "lo \<le> hi" using lo_le by (simp add: hi_def)
  have hi_lt: "hi < length s"
  proof -
    have "0 < length s" using ne by simp
    then show ?thesis unfolding hi_def by arith
  qed
  have step: "s ! lo \<le> s ! hi"
    using srt lo_hi hi_lt by (simp add: sorted_nth_mono)
  have fr0: "0 \<le> fr" and fr1: "fr \<le> 1"
    using nat_floor_facts [OF h0] by (simp_all add: fr_def lo_def)
  have val: "interpolate s h = s ! lo + (s ! hi - s ! lo) * fr"
    by (simp add: interpolate_def Let_def lo_def hi_def fr_def)
  have nonneg: "0 \<le> (s ! hi - s ! lo) * fr"
    using step fr0 by simp
  have upper: "(s ! hi - s ! lo) * fr \<le> (s ! hi - s ! lo) * 1"
    using step fr1 by (intro mult_left_mono) simp_all
  show "s ! nat \<lfloor>h\<rfloor> \<le> interpolate s h"
    using nonneg by (simp add: val lo_def)
  show "interpolate s h \<le> s ! min (nat \<lfloor>h\<rfloor> + 1) (length s - 1)"
    using upper by (simp add: val hi_def lo_def)
qed

lemma interpolate_mono:
  assumes srt: "sorted s" and ne: "s \<noteq> []"
    and h0: "0 \<le> h" and hh: "h \<le> h'" and hn: "h' \<le> real (length s - 1)"
  shows "interpolate s h \<le> interpolate s h'"
proof -
  define lo where "lo = nat \<lfloor>h\<rfloor>"
  define lo' where "lo' = nat \<lfloor>h'\<rfloor>"
  have h0': "0 \<le> h'" and hn0: "h \<le> real (length s - 1)"
    using h0 hh hn by linarith+
  have lo_lo': "lo \<le> lo'"
    unfolding lo_def lo'_def using hh by (simp add: floor_mono nat_mono)
  have lo'_le: "lo' \<le> length s - 1"
    unfolding lo'_def by (rule nat_floor_le_bound [OF h0' hn])
  show ?thesis
  proof (cases "lo = lo'")
    case True
    define hi where "hi = min (lo + 1) (length s - 1)"
    have lo_hi: "lo \<le> hi" using lo'_le True by (simp add: hi_def)
    have hi_lt: "hi < length s"
  proof -
    have "0 < length s" using ne by simp
    then show ?thesis unfolding hi_def by arith
  qed
    have step: "0 \<le> s ! hi - s ! lo"
      using srt lo_hi hi_lt by (simp add: sorted_nth_mono)
    have "(s ! hi - s ! lo) * (h - real lo) \<le> (s ! hi - s ! lo) * (h' - real lo)"
      using step hh by (intro mult_left_mono) simp_all
    moreover have "interpolate s h = s ! lo + (s ! hi - s ! lo) * (h - real lo)"
      by (simp add: interpolate_def Let_def lo_def hi_def)
    moreover have "interpolate s h' = s ! lo + (s ! hi - s ! lo) * (h' - real lo)"
      using True by (simp add: interpolate_def Let_def lo_def lo'_def hi_def)
    ultimately show ?thesis by simp
  next
    case False
    with lo_lo' have lt: "lo + 1 \<le> lo'" by simp
    have "interpolate s h \<le> s ! min (lo + 1) (length s - 1)"
      unfolding lo_def by (rule interpolate_bounds(2) [OF srt ne h0 hn0])
    also have "\<dots> \<le> s ! lo'"
    proof -
      have "min (lo + 1) (length s - 1) \<le> lo'" using lt by simp
      moreover have "lo' < length s" using lo'_le ne by (cases s) simp_all
      ultimately show ?thesis using srt by (simp add: sorted_nth_mono)
    qed
    also have "\<dots> \<le> interpolate s h'"
      unfolding lo'_def by (rule interpolate_bounds(1) [OF srt ne h0' hn])
    finally show ?thesis .
  qed
qed

lemma quantile_mono:
  assumes ne: "xs \<noteq> []" and q0: "0 \<le> q" and qq: "q \<le> q'" and q1: "q' \<le> 1"
  shows "quantile xs q \<le> quantile xs q'"
proof -
  have len: "real (length xs) - 1 = real (length (sort xs) - 1)"
    using ne by (cases xs) simp_all
  have pos: "0 \<le> real (length (sort xs) - 1)" by simp
  have a: "0 \<le> real (length (sort xs) - 1) * q"
    using q0 by simp
  have b: "real (length (sort xs) - 1) * q \<le> real (length (sort xs) - 1) * q'"
    using qq by (intro mult_left_mono) simp_all
  have c: "real (length (sort xs) - 1) * q' \<le> real (length (sort xs) - 1)"
    using q1 mult_left_mono [OF q1 pos] by simp
  have ne': "sort xs \<noteq> []" using ne by (cases xs) auto
  show ?thesis
    unfolding quantile_def len
    by (rule interpolate_mono [OF sorted_sort ne' a b c])
qed

lemma thresholds_ordered: "fst (thresholds xs) \<le> snd (thresholds xs)"
proof (cases "length xs > 2")
  case True
  then have "xs \<noteq> []" by auto
  then have "quantile xs (33 / 100) \<le> quantile xs (66 / 100)"
    by (rule quantile_mono) simp_all
  with True show ?thesis by (simp add: thresholds_def)
next
  case False
  then show ?thesis by (simp add: thresholds_def)
qed

subsection \<open>The pivot and the rows of the result\<close>

lemma index_pivot_table:
  "set (index (pivot_table df)) = key_of ` set df"
  "distinct (index (pivot_table df))"
  by (simp_all add: pivot_table_def)

lemma columns_pivot_table: "set (columns (pivot_table df)) = col_of ` set df"
  by (simp add: pivot_table_def)

lemma cell_pivot_table:
  "cell (pivot_table df) k c =
     (if group_of df k c = [] then None
      else Some (sum_list (map valor_or_zero (group_of df k c))))"
  by (simp add: pivot_table_def)

lemma group_of_absent_column:
  assumes "c \<notin> col_of ` set df"
  shows "group_of df k c = []"
  using assms by (auto simp: group_of_def filter_empty_conv)

lemma get_col_sum:
  "get_col (pivot_table df) category indicator k =
     sum_list (map valor_or_zero (group_of df k (category, indicator)))"
proof (cases "(category, indicator) \<in> col_of ` set df")
  case True
  then show ?thesis
    by (simp add: get_col_def columns_pivot_table cell_pivot_table)
next
  case False
  then show ?thesis
    by (simp add: get_col_def columns_pivot_table group_of_absent_column)
qed

lemma rows_iff:
  "r \<in> set (preprocess_sbp_data df) \<longleftrightarrow>
     (\<exists>k \<in> key_of ` set df. r = result_row (pivot_table df) k)"
  by (auto simp: preprocess_sbp_data_def Let_def index_pivot_table)

lemma row_key_result_row: "row_key (result_row pivoted k) = k"
  by (simp add: row_key_def result_row_def)

lemma map_ROE_rows:
  "map ROE (preprocess_sbp_data df) = map (roe (pivot_table df)) (index (pivot_table df))"
  by (simp add: preprocess_sbp_data_def Let_def result_row_def)

lemma temp_roe_rows:
  "temp_roe (pivot_table df) = dropna (map ROE (preprocess_sbp_data df))"
  by (simp add: temp_roe_def map_ROE_rows)

lemma classification_row:
  assumes "r \<in> set (preprocess_sbp_data df)"
  shows "classification r =
           classify_roe (fst (thresholds (dropna (map ROE (preprocess_sbp_data df)))))
                        (snd (thresholds (dropna (map ROE (preprocess_sbp_data df))))) (ROE r)"
proof -
  from assms obtain k where r: "r = result_row (pivot_table df) k"
    unfolding rows_iff by blast
  show ?thesis
    by (simp add: r result_row_def classification_series_def temp_roe_rows [symmetric]
        split_beta)
qed

lemma thresholds_default: "length xs < 3 \<Longrightarrow> thresholds xs = (0, 0)"
  by (simp add: thresholds_def)

lemma thresholds_quantiles:
  "3 \<le> length xs \<Longrightarrow> thresholds xs = (quantile xs (33 / 100), quantile xs (66 / 100))"
  by (simp add: thresholds_def)

lemma classify_roe_cases:
  "classify_roe a b None = ''Unknown''"
  "v \<le> a \<Longrightarrow> classify_roe a b (Some v) = ''Low performance''"
  "a < v \<Longrightarrow> v \<le> b \<Longrightarrow> classify_roe a b (Some v) = ''Medium performance''"
  "a < v \<Longrightarrow> b < v \<Longrightarrow> classify_roe a b (Some v) = ''High performance''"
  by (simp_all add: classify_roe_def)

lemma classify_roe_labels:
  "classify_roe a b x \<in>
     {''Unknown'', ''Low performance'', ''Medium performance'', ''High performance''}"
  by (simp add: classify_roe_def split: option.split)

lemma classify_roe_Unknown_iff: "classify_roe a b x = ''Unknown'' \<longleftrightarrow> x = None"
  by (simp add: classify_roe_def split: option.split)

lemma equity_row:
  assumes "r \<in> set (preprocess_sbp_data df)"
  shows "equity r = equity_series (pivot_table df) (row_key r)"
proof -
  from assms obtain k where r: "r = result_row (pivot_table df) k"
    unfolding rows_iff by blast
  show ?thesis by (simp add: r row_key_result_row) (simp add: result_row_def)
qed

subsection \<open>Rounding and the binary64 operations\<close>





lemma round_double_not_NaN: "round_double x \<noteq> NaN"
  by (simp add: round_double_def Let_def)








lemma overflow_example:
  "roa64 (Finite 0) (Finite (2 ^ 512)) = Finite 0"
  "leverage64 (Finite (2 ^ 512)) (Finite (1 / 2 ^ 512)) = PosInf"
  "roe64 (Finite 0) (Finite (2 ^ 512)) (Finite (1 / 2 ^ 512)) = NaN"
  by (simp_all add: roe64_def roa64_def leverage64_def replace_zero_nan64_def round_double_def)



lemma fmul_NaN_iff:
  "fmul a b = NaN \<longleftrightarrow>
     a = NaN \<or> b = NaN
     \<or> (a = Finite 0 \<and> (b = PosInf \<or> b = NegInf))
     \<or> ((a = PosInf \<or> a = NegInf) \<and> b = Finite 0)"
  by (cases a; cases b) (simp_all add: round_double_not_NaN)

lemma fdiv_NaN_right: "fdiv a NaN = NaN"
  by (cases a) simp_all

subsection \<open>The engine on the sample frames\<close>

lemma two_banks_rows:
  "preprocess_sbp_data two_banks =
     [\<lparr> Bank = ''A'', Year = 2023, Month = 1, net_income = - 1, total_assets = 50,
        equity = 10, ROA = Some (- (1 / 50)), Leverage = Some 5, ROE = Some (- (1 / 10)),
        classification = ''Low performance'', liquidity_ratio = None, deposit_diversity = None,
        deposit_view_to_plazo = None, coverage_ratio = None, leverage_ratio_extra = Some 0,
        capitalization_ratio = Some (1 / 5), adjusted_ROE = None \<rparr>,
      \<lparr> Bank = ''B'', Year = 2023, Month = 1, net_income = 1, total_assets = 100,
        equity = 20, ROA = Some (1 / 100), Leverage = Some 5, ROE = Some (1 / 20),
        classification = ''High performance'', liquidity_ratio = None, deposit_diversity = None,
        deposit_view_to_plazo = None, coverage_ratio = None, leverage_ratio_extra = Some 0,
        capitalization_ratio = Some (1 / 5), adjusted_ROE = None \<rparr>]"
  by code_simp

lemma five_banks_rows:
  "preprocess_sbp_data five_banks =
     [\<lparr> Bank = ''A'', Year = 2023, Month = 1, net_income = - 1, total_assets = 50,
        equity = 10, ROA = Some (- (1 / 50)), Leverage = Some 5, ROE = Some (- (1 / 10)),
        classification = ''Low performance'', liquidity_ratio = None, deposit_diversity = None,
        deposit_view_to_plazo = None, coverage_ratio = None, leverage_ratio_extra = Some 0,
        capitalization_ratio = Some (1 / 5), adjusted_ROE = None \<rparr>,
      \<lparr> Bank = ''B'', Year = 2023, Month = 1, net_income = 1, total_assets = 100,
        equity = 20, ROA = Some (1 / 100), Leverage = Some 5, ROE = Some (1 / 20),
        classification = ''Medium performance'', liquidity_ratio = None, deposit_diversity = None,
        deposit_view_to_plazo = None, coverage_ratio = None, leverage_ratio_extra = Some 0,
        capitalization_ratio = Some (1 / 5), adjusted_ROE = None \<rparr>,
      \<lparr> Bank = ''C'', Year = 2023, Month = 1, net_income = 2, total_assets = 40,
        equity = 10, ROA = Some (1 / 20), Leverage = Some 4, ROE = Some (1 / 5),
        classification = ''High performance'', liquidity_ratio = None, deposit_diversity = None,
        deposit_view_to_plazo = None, coverage_ratio = None, leverage_ratio_extra = Some 0,
        capitalization_ratio = Some (1 / 4), adjusted_ROE = None \<rparr>,
      \<lparr> Bank = ''D'', Year = 2023, Month = 1, net_income = 0, total_assets = 0,
        equity = 5, ROA = None, Leverage = Some 0, ROE = None,
        classification = ''Unknown'', liquidity_ratio = None, deposit_diversity = None,
        deposit_view_to_plazo = None, coverage_ratio = Some 0, leverage_ratio_extra = Some 0,
        capitalization_ratio = None, adjusted_ROE = None \<rparr>,
      \<lparr> Bank = ''E'', Year = 2023, Month = 1, net_income = 0, total_assets = 30,
        equity = 0, ROA = Some 0, Leverage = None, ROE = None,
        classification = ''Unknown'', liquidity_ratio = None, deposit_diversity = None,
        deposit_view_to_plazo = None, coverage_ratio = None, leverage_ratio_extra = None,
        capitalization_ratio = Some 0, adjusted_ROE = None \<rparr>]"
  by code_simp

lemma five_banks_thresholds:
  "thresholds (dropna (map ROE (preprocess_sbp_data five_banks))) = (- (1 / 1000), 49 / 500)"
proof -
  have "thresholds (dropna [Some (- (1 / 10)), Some (1 / 20), Some (1 / 5), None, None])
          = (- (1 / 1000), 49 / 500)"
    by code_simp
  then show ?thesis by (simp add: five_banks_rows)
qed

lemma two_banks_temp_roe:
  "dropna (map ROE (preprocess_sbp_data two_banks)) = [- (1 / 10), 1 / 20]"
  by (simp add: two_banks_rows dropna_def List.map_filter_simps)

lemma basic_metrics_result_row:
  "net_income (result_row pivoted k) = get_col pivoted ''Patrimonio'' ''Utilidad De Periodo'' k"
  "total_assets (result_row pivoted k) = get_col pivoted ''Patrimonio'' ''Pasivo Y Patrimonio'' k"
  "equity (result_row pivoted k) = equity_series pivoted k"
  by (simp_all add: result_row_def net_income_series_def total_assets_series_def)

lemma overflow_bank_rows:
  "preprocess_sbp_data overflow_bank = [result_row (pivot_table overflow_bank) (''X'', 2023, 1)]"
proof -
  have "index (pivot_table overflow_bank) = [(''X'', 2023, 1)]"
    by (simp add: pivot_table_def overflow_bank_def line_item_def key_of_def)
  then show ?thesis by (simp add: preprocess_sbp_data_def Let_def)
qed

lemma overflow_bank_metrics:
  "net_income (hd (preprocess_sbp_data overflow_bank)) = 0"
  "total_assets (hd (preprocess_sbp_data overflow_bank)) = 2 ^ 512"
  "equity (hd (preprocess_sbp_data overflow_bank)) = 1 / 2 ^ 512"
  unfolding overflow_bank_rows list.sel basic_metrics_result_row equity_series_def capital_def
    other_reserves_def previous_net_income_def market_value_gain_def net_income_series_def
    get_col_sum
  by (simp_all add: group_of_def overflow_bank_def line_item_def key_of_def col_of_def
      valor_or_zero_def)



subsection \<open>Classification\<close>

text \<open>
  Claim C1. The label of a row of the result is \<^const>\<open>classify_roe\<close> of the row's ROE
  and the two thresholds of the run, nothing else. The thresholds are the quantiles at
  0.33 and 0.66 of the non-null ROE values of the result when there are at least three of
  them and 0 otherwise, and the first never exceeds the second. A null ROE gives
  "Unknown" (and only a null ROE does), an ROE up to the first threshold "Low
  performance", above it and up to the second "Medium performance", above the second
  "High performance"; a value equal to a threshold falls in the lower tier, and no other
  label occurs.
\<close>

theorem classification_by_thresholds:
  assumes "r \<in> set (preprocess_sbp_data df)"
  shows "let t = dropna (map ROE (preprocess_sbp_data df));
             p33 = fst (thresholds t); p66 = snd (thresholds t)
         in (length t < 3 \<longrightarrow> p33 = 0 \<and> p66 = 0)
          \<and> (3 \<le> length t \<longrightarrow> p33 = quantile t (33 / 100) \<and> p66 = quantile t (66 / 100))
          \<and> p33 \<le> p66
          \<and> classification r = classify_roe p33 p66 (ROE r)
          \<and> (ROE r = None \<longrightarrow> classification r = ''Unknown'')
          \<and> (\<forall>x. ROE r = Some x \<and> x \<le> p33 \<longrightarrow> classification r = ''Low performance'')
          \<and> (\<forall>x. ROE r = Some x \<and> p33 < x \<and> x \<le> p66
                 \<longrightarrow> classification r = ''Medium performance'')
          \<and> (\<forall>x. ROE r = Some x \<and> p66 < x \<longrightarrow> classification r = ''High performance'')
          \<and> (classification r = ''Unknown'' \<longleftrightarrow> ROE r = None)
          \<and> classification r \<in>
              {''Unknown'', ''Low performance'', ''Medium performance'', ''High performance''}"
proof -
  define t where "t = dropna (map ROE (preprocess_sbp_data df))"
  define p33 where "p33 = fst (thresholds t)"
  define p66 where "p66 = snd (thresholds t)"
  have ord: "p33 \<le> p66"
    unfolding p33_def p66_def by (rule thresholds_ordered)
  have cls: "classification r = classify_roe p33 p66 (ROE r)"
    unfolding p33_def p66_def t_def by (rule classification_row [OF assms])
  have small: "length t < 3 \<longrightarrow> p33 = 0 \<and> p66 = 0"
    by (simp add: p33_def p66_def thresholds_default)
  have large: "3 \<le> length t \<longrightarrow> p33 = quantile t (33 / 100) \<and> p66 = quantile t (66 / 100)"
    by (simp add: p33_def p66_def thresholds_quantiles)
  have unk: "ROE r = None \<longrightarrow> classification r = ''Unknown''"
    by (simp add: cls classify_roe_cases)
  have low: "\<forall>x. ROE r = Some x \<and> x \<le> p33 \<longrightarrow> classification r = ''Low performance''"
    by (simp add: cls classify_roe_cases)
  have med: "\<forall>x. ROE r = Some x \<and> p33 < x \<and> x \<le> p66
               \<longrightarrow> classification r = ''Medium performance''"
    by (simp add: cls classify_roe_cases)
  have high: "\<forall>x. ROE r = Some x \<and> p66 < x \<longrightarrow> classification r = ''High performance''"
  proof (intro allI impI)
    fix x assume "ROE r = Some x \<and> p66 < x"
    then have "ROE r = Some x" "p33 < x" "p66 < x" using ord by auto
    then show "classification r = ''High performance''"
      by (simp add: cls classify_roe_cases)
  qed
  have iff: "classification r = ''Unknown'' \<longleftrightarrow> ROE r = None"
    by (simp add: cls classify_roe_Unknown_iff)
  have lab: "classification r \<in>
      {''Unknown'', ''Low performance'', ''Medium performance'', ''High performance''}"
    unfolding cls by (rule classify_roe_labels)
  show ?thesis
    unfolding Let_def t_def [symmetric] p33_def [symmetric] p66_def [symmetric]
    using small large ord cls unk low med high iff lab by blast
qed

theorem classification_by_thresholds_witness:
  "preprocess_sbp_data five_banks ! 1 \<in> set (preprocess_sbp_data five_banks)
   \<and> ROE (preprocess_sbp_data five_banks ! 1) = Some (1 / 20)
   \<and> thresholds (dropna (map ROE (preprocess_sbp_data five_banks))) = (- (1 / 1000), 49 / 500)
   \<and> classification (preprocess_sbp_data five_banks ! 1) = ''Medium performance''"
proof -
  have h: "preprocess_sbp_data five_banks ! 1 \<in> set (preprocess_sbp_data five_banks)"
    by (simp add: five_banks_rows)
  have v: "ROE (preprocess_sbp_data five_banks ! 1) = Some (1 / 20)"
    by (simp add: five_banks_rows)
  have "classification (preprocess_sbp_data five_banks ! 1) =
          classify_roe (fst (thresholds (dropna (map ROE (preprocess_sbp_data five_banks)))))
            (snd (thresholds (dropna (map ROE (preprocess_sbp_data five_banks)))))
            (ROE (preprocess_sbp_data five_banks ! 1))"
    using classification_by_thresholds [OF h] unfolding Let_def by blast
  then have "classification (preprocess_sbp_data five_banks ! 1) = ''Medium performance''"
    unfolding five_banks_thresholds v by (simp add: classify_roe_def)
  with h v five_banks_thresholds show ?thesis by simp
qed

text \<open>
  Claim C2, as stated: with exactly two non-null ROE values the thresholds are (0, 0) and
  a row with ROE 0.05 is labelled "Medium performance". On \<open>two_banks\<close> the thresholds
  are (0, 0) and the row of bank B has ROE 0.05, yet its label is not "Medium
  performance".
\<close>

theorem two_values_medium_counterexample:
  "length (dropna (map ROE (preprocess_sbp_data two_banks))) = 2
   \<and> thresholds (dropna (map ROE (preprocess_sbp_data two_banks))) = (0, 0)
   \<and> preprocess_sbp_data two_banks ! 1 \<in> set (preprocess_sbp_data two_banks)
   \<and> ROE (preprocess_sbp_data two_banks ! 1) = Some (5 / 100)
   \<and> classification (preprocess_sbp_data two_banks ! 1) \<noteq> ''Medium performance''"
  by (simp add: two_banks_temp_roe thresholds_def) (simp add: two_banks_rows)

text \<open>
  Claim C2, amended: with exactly two non-null ROE values the thresholds are (0, 0), and a
  row whose ROE is 0.05 is labelled "High performance", since 0.05 exceeds both
  thresholds.
\<close>

theorem two_values_high:
  assumes "length (dropna (map ROE (preprocess_sbp_data df))) = 2"
    and "r \<in> set (preprocess_sbp_data df)"
    and "ROE r = Some (5 / 100)"
  shows "thresholds (dropna (map ROE (preprocess_sbp_data df))) = (0, 0)
         \<and> classification r = ''High performance''"
proof -
  have th: "thresholds (dropna (map ROE (preprocess_sbp_data df))) = (0, 0)"
    using assms(1) by (simp add: thresholds_default)
  have "classification r = classify_roe 0 0 (Some (5 / 100))"
    using classification_row [OF assms(2)] by (simp add: th assms(3))
  then show ?thesis using th by (simp add: classify_roe_def)
qed

theorem two_values_high_witness:
  "length (dropna (map ROE (preprocess_sbp_data two_banks))) = 2
   \<and> preprocess_sbp_data two_banks ! 1 \<in> set (preprocess_sbp_data two_banks)
   \<and> ROE (preprocess_sbp_data two_banks ! 1) = Some (5 / 100)
   \<and> thresholds (dropna (map ROE (preprocess_sbp_data two_banks))) = (0, 0)
   \<and> classification (preprocess_sbp_data two_banks ! 1) = ''High performance''"
proof -
  have a: "length (dropna (map ROE (preprocess_sbp_data two_banks))) = 2"
    by (simp add: two_banks_temp_roe)
  have b: "preprocess_sbp_data two_banks ! 1 \<in> set (preprocess_sbp_data two_banks)"
    by (simp add: two_banks_rows)
  have c: "ROE (preprocess_sbp_data two_banks ! 1) = Some (5 / 100)"
    by (simp add: two_banks_rows)
  show ?thesis using a b c two_values_high [OF a b c] by simp
qed

subsection \<open>Primary ratios\<close>

text \<open>
  Claim C3, as stated: in every row ROA is null when total assets are 0, Leverage is null
  when equity is 0, and ROE is null exactly when ROA or Leverage is null. The row of
  \<open>overflow_bank\<close> has net income 0, total assets \<open>2^512\<close> and equity \<open>2^(-512)\<close>; its
  ROA is 0, its Leverage overflows to infinity, and their product, its ROE, is null though
  neither ROA nor Leverage is.
\<close>

theorem null_roe_iff_counterexample:
  "net_income (hd (preprocess_sbp_data overflow_bank)) = 0
   \<and> total_assets (hd (preprocess_sbp_data overflow_bank)) = 2 ^ 512
   \<and> equity (hd (preprocess_sbp_data overflow_bank)) = 1 / 2 ^ 512
   \<and> roa64 (Finite (net_income (hd (preprocess_sbp_data overflow_bank))))
            (Finite (total_assets (hd (preprocess_sbp_data overflow_bank)))) = Finite 0
   \<and> leverage64 (Finite (total_assets (hd (preprocess_sbp_data overflow_bank))))
                 (Finite (equity (hd (preprocess_sbp_data overflow_bank)))) = PosInf
   \<and> roe64 (Finite (net_income (hd (preprocess_sbp_data overflow_bank))))
            (Finite (total_assets (hd (preprocess_sbp_data overflow_bank))))
            (Finite (equity (hd (preprocess_sbp_data overflow_bank)))) = NaN"
  unfolding overflow_bank_metrics overflow_example by simp

text \<open>
  Claim C3, amended: in every row ROA is null when total assets are exactly 0 and
  Leverage is null when equity is exactly 0; ROE is null whenever ROA or Leverage is
  null, and otherwise exactly when one of the two is 0 and the other infinite. The three
  lines raise no division-by-zero error and put no 0 in the place of an undefined ratio.
  The statement holds for all float64 entries a row can carry; a row whose total assets
  and equity are both 0 has all three ratios null.
\<close>

theorem undefined_ratios_binary64:
  "(assets = Finite 0 \<longrightarrow> roa64 income assets = NaN)
   \<and> (eqty = Finite 0 \<longrightarrow> leverage64 assets eqty = NaN)
   \<and> (roa64 income assets = NaN \<or> leverage64 assets eqty = NaN
        \<longrightarrow> roe64 income assets eqty = NaN)
   \<and> (roe64 income assets eqty = NaN \<longleftrightarrow>
        roa64 income assets = NaN \<or> leverage64 assets eqty = NaN
        \<or> (roa64 income assets = Finite 0
            \<and> (leverage64 assets eqty = PosInf \<or> leverage64 assets eqty = NegInf))
        \<or> ((roa64 income assets = PosInf \<or> roa64 income assets = NegInf)
            \<and> leverage64 assets eqty = Finite 0))"
proof -
  have a: "assets = Finite 0 \<longrightarrow> roa64 income assets = NaN"
    by (simp add: roa64_def replace_zero_nan64_def fdiv_NaN_right)
  have b: "eqty = Finite 0 \<longrightarrow> leverage64 assets eqty = NaN"
    by (simp add: leverage64_def replace_zero_nan64_def fdiv_NaN_right)
  have d: "roe64 income assets eqty = NaN \<longleftrightarrow>
        roa64 income assets = NaN \<or> leverage64 assets eqty = NaN
        \<or> (roa64 income assets = Finite 0
            \<and> (leverage64 assets eqty = PosInf \<or> leverage64 assets eqty = NegInf))
        \<or> ((roa64 income assets = PosInf \<or> roa64 income assets = NegInf)
            \<and> leverage64 assets eqty = Finite 0)"
    unfolding roe64_def by (rule fmul_NaN_iff)
  have c: "roa64 income assets = NaN \<or> leverage64 assets eqty = NaN
        \<longrightarrow> roe64 income assets eqty = NaN"
    using d by blast
  show ?thesis using a b c d by blast
qed

theorem undefined_ratios_binary64_witness:
  "roa64 (Finite 0) (Finite 0) = NaN
   \<and> leverage64 (Finite 0) (Finite 0) = NaN
   \<and> roe64 (Finite 0) (Finite 0) (Finite 0) = NaN"
  using undefined_ratios_binary64 [of "Finite 0" "Finite 0" "Finite 0"] by blast

text \<open>
  Claim C4. In every row of the result, equity is the sum of the five line items capital,
  other reserves, net income of previous periods, gain or loss on securities available
  for sale and net income of the period, each read through \<^const>\<open>get_col\<close>; in terms of
  the input it is the sum of the values of all records of the row's period under these
  five labels.
\<close>

theorem equity_is_sum_of_five:
  assumes "r \<in> set (preprocess_sbp_data df)"
  shows "equity r =
           get_col (pivot_table df) ''Patrimonio'' ''Capital'' (row_key r)
         + get_col (pivot_table df) ''Patrimonio'' ''Otras Reservas'' (row_key r)
         + get_col (pivot_table df) ''Patrimonio'' ''Utilidad De Periodos Anteriores'' (row_key r)
         + get_col (pivot_table df) ''Patrimonio''
             ''Ganancia O Perdida En Valores Disponible Para La Venta'' (row_key r)
         + get_col (pivot_table df) ''Patrimonio'' ''Utilidad De Periodo'' (row_key r)
       \<and> equity r =
           sum_list (map valor_or_zero (group_of df (row_key r) (''Patrimonio'', ''Capital'')))
         + sum_list (map valor_or_zero
             (group_of df (row_key r) (''Patrimonio'', ''Otras Reservas'')))
         + sum_list (map valor_or_zero
             (group_of df (row_key r) (''Patrimonio'', ''Utilidad De Periodos Anteriores'')))
         + sum_list (map valor_or_zero
             (group_of df (row_key r)
                (''Patrimonio'', ''Ganancia O Perdida En Valores Disponible Para La Venta'')))
         + sum_list (map valor_or_zero
             (group_of df (row_key r) (''Patrimonio'', ''Utilidad De Periodo'')))"
proof -
  have eq: "equity r =
           get_col (pivot_table df) ''Patrimonio'' ''Capital'' (row_key r)
         + get_col (pivot_table df) ''Patrimonio'' ''Otras Reservas'' (row_key r)
         + get_col (pivot_table df) ''Patrimonio'' ''Utilidad De Periodos Anteriores'' (row_key r)
         + get_col (pivot_table df) ''Patrimonio''
             ''Ganancia O Perdida En Valores Disponible Para La Venta'' (row_key r)
         + get_col (pivot_table df) ''Patrimonio'' ''Utilidad De Periodo'' (row_key r)"
    unfolding equity_row [OF assms]
    by (simp add: equity_series_def capital_def other_reserves_def previous_net_income_def
        market_value_gain_def net_income_series_def)
  show ?thesis
    apply (rule conjI)
     apply (rule eq)
    unfolding eq get_col_sum
    apply (rule refl)
    done
qed

theorem equity_is_sum_of_five_witness:
  "preprocess_sbp_data five_banks ! 2 \<in> set (preprocess_sbp_data five_banks)
   \<and> equity (preprocess_sbp_data five_banks ! 2) = 10
   \<and> get_col (pivot_table five_banks) ''Patrimonio'' ''Capital'' (''C'', 2023, 1)
     + get_col (pivot_table five_banks) ''Patrimonio'' ''Otras Reservas'' (''C'', 2023, 1)
     + get_col (pivot_table five_banks) ''Patrimonio'' ''Utilidad De Periodos Anteriores''
         (''C'', 2023, 1)
     + get_col (pivot_table five_banks) ''Patrimonio''
         ''Ganancia O Perdida En Valores Disponible Para La Venta'' (''C'', 2023, 1)
     + get_col (pivot_table five_banks) ''Patrimonio'' ''Utilidad De Periodo'' (''C'', 2023, 1)
     = 10"
proof -
  have h: "preprocess_sbp_data five_banks ! 2 \<in> set (preprocess_sbp_data five_banks)"
    by (simp add: five_banks_rows)
  have k: "row_key (preprocess_sbp_data five_banks ! 2) = (''C'', 2023, 1)"
    and e: "equity (preprocess_sbp_data five_banks ! 2) = 10"
    by (simp_all add: five_banks_rows row_key_def)
  from equity_is_sum_of_five [OF h] show ?thesis
    unfolding k using h e by simp
qed

subsection \<open>Period keys and the pivot\<close>

lemma map_row_key_rows: "map row_key (preprocess_sbp_data df) = index (pivot_table df)"
  by (simp add: preprocess_sbp_data_def Let_def row_key_result_row comp_def)

lemma count_in_distinct:
  assumes "distinct xs" and "x \<in> set xs"
  shows "length (filter (\<lambda>y. y = x) xs) = 1"
proof -
  have "{y. y = x} \<inter> set xs = {x}" using assms(2) by auto
  then show ?thesis using assms(1) by (simp add: distinct_length_filter)
qed

text \<open>
  Claim C5. The period keys written in the rows of the result are pairwise distinct and
  are exactly the period keys of the input records, so every period key of the input has
  exactly one row and none has more.
\<close>

theorem one_row_per_period_key:
  "distinct (map row_key (preprocess_sbp_data df))
   \<and> set (map row_key (preprocess_sbp_data df)) = key_of ` set df
   \<and> (\<forall>k \<in> key_of ` set df.
         length (filter (\<lambda>r. row_key r = k) (preprocess_sbp_data df)) = 1)"
proof -
  have d: "distinct (map row_key (preprocess_sbp_data df))"
    by (simp add: map_row_key_rows index_pivot_table)
  have s: "set (map row_key (preprocess_sbp_data df)) = key_of ` set df"
    by (simp only: map_row_key_rows index_pivot_table)
  have c: "length (filter (\<lambda>r. row_key r = k) (preprocess_sbp_data df)) = 1"
    if "k \<in> key_of ` set df" for k
  proof -
    have "k \<in> set (map row_key (preprocess_sbp_data df))" using that s by simp
    then have "length (filter (\<lambda>y. y = k) (map row_key (preprocess_sbp_data df))) = 1"
      by (rule count_in_distinct [OF d])
    then show ?thesis by (simp add: filter_map comp_def)
  qed
  show ?thesis using d s c by blast
qed

theorem one_row_per_period_key_witness:
  "(''C'', 2023, 1) \<in> key_of ` set five_banks
   \<and> length (filter (\<lambda>r. row_key r = (''C'', 2023, 1)) (preprocess_sbp_data five_banks)) = 1
   \<and> distinct (map row_key (preprocess_sbp_data five_banks))"
proof -
  have h: "(''C'', 2023, 1) \<in> key_of ` set five_banks"
    by (simp add: five_banks_def two_banks_def line_item_def key_of_def)
  show ?thesis using h one_row_per_period_key [of five_banks] by blast
qed

text \<open>
  Claim C6. The value \<^const>\<open>get_col\<close> reads for a period and a (category, indicator)
  pair is the sum of the values of all input records of that period and pair, a missing
  value adding nothing; the cell of the pivot holds that sum as soon as one such record
  exists, and where the input has no record of the pair for the period
  \<^const>\<open>get_col\<close> gives 0.
\<close>

theorem pivot_sums_and_safe_get:
  "get_col (pivot_table df) category indicator k =
     sum_list (map valor_or_zero (group_of df k (category, indicator)))
   \<and> (group_of df k (category, indicator) \<noteq> [] \<longrightarrow>
        cell (pivot_table df) k (category, indicator) =
          Some (sum_list (map valor_or_zero (group_of df k (category, indicator)))))
   \<and> ((\<forall>r \<in> set df. key_of r = k \<longrightarrow> col_of r \<noteq> (category, indicator)) \<longrightarrow>
        get_col (pivot_table df) category indicator k = 0)"
proof -
  have absent: "group_of df k (category, indicator) = []"
    if "\<forall>r \<in> set df. key_of r = k \<longrightarrow> col_of r \<noteq> (category, indicator)"
    using that by (auto simp: group_of_def filter_empty_conv)
  show ?thesis
    using absent by (auto simp: get_col_sum cell_pivot_table)
qed

lemma five_banks_capital_C:
  "group_of five_banks (''C'', 2023, 1) (''Patrimonio'', ''Capital'') =
     [line_item ''Patrimonio'' ''Capital'' (Some 3) ''C'',
      line_item ''Patrimonio'' ''Capital'' (Some 5) ''C'']"
  by (simp add: group_of_def five_banks_def two_banks_def line_item_def key_of_def col_of_def)

theorem pivot_sums_and_safe_get_witness:
  "get_col (pivot_table five_banks) ''Patrimonio'' ''Capital'' (''C'', 2023, 1) = 8
   \<and> cell (pivot_table five_banks) (''C'', 2023, 1) (''Patrimonio'', ''Capital'') = Some 8
   \<and> group_of five_banks (''D'', 2023, 1) (''Depositos'', ''A Plazo'') = []
   \<and> get_col (pivot_table five_banks) ''Depositos'' ''A Plazo'' (''D'', 2023, 1) = 0"
proof -
  have s: "sum_list (map valor_or_zero
             (group_of five_banks (''C'', 2023, 1) (''Patrimonio'', ''Capital''))) = 8"
    and n: "group_of five_banks (''C'', 2023, 1) (''Patrimonio'', ''Capital'') \<noteq> []"
    by (simp_all add: five_banks_capital_C valor_or_zero_def line_item_def)
  have a: "\<forall>r \<in> set five_banks.
             key_of r = (''D'', 2023, 1) \<longrightarrow> col_of r \<noteq> (''Depositos'', ''A Plazo'')"
    by (simp add: five_banks_def two_banks_def line_item_def key_of_def col_of_def)
  have c: "get_col (pivot_table five_banks) ''Patrimonio'' ''Capital'' (''C'', 2023, 1) = 8
         \<and> cell (pivot_table five_banks) (''C'', 2023, 1) (''Patrimonio'', ''Capital'') = Some 8"
    using pivot_sums_and_safe_get [of five_banks "''Patrimonio''" "''Capital''" "(''C'', 2023, 1)"]
      n unfolding s by blast
  have z: "get_col (pivot_table five_banks) ''Depositos'' ''A Plazo'' (''D'', 2023, 1) = 0"
    using pivot_sums_and_safe_get [of five_banks "''Depositos''" "''A Plazo''" "(''D'', 2023, 1)"]
      a by blast
  have g: "group_of five_banks (''D'', 2023, 1) (''Depositos'', ''A Plazo'') = []"
    using a by (auto simp: group_of_def filter_empty_conv)
  show ?thesis using g c z by blast
qed

subsection \<open>Order of the tiers\<close>

lemma classify_roe_mono:
  assumes "x < y"
  shows "label_rank (classify_roe a b (Some x)) \<le> label_rank (classify_roe a b (Some y))"
  using assms by (simp add: classify_roe_def label_rank_def)

lemma label_rank_tier: "label_rank (classify_roe a b (Some x)) \<le> 2"
  by (simp add: classify_roe_def label_rank_def)

text \<open>
  Claim C7. For two rows of one result with non-null ROE, a strictly smaller ROE never
  has a higher tier in the order low, medium, high; both labels are among these three.
\<close>

theorem classification_monotone:
  assumes "ra \<in> set (preprocess_sbp_data df)" and "rb \<in> set (preprocess_sbp_data df)"
    and "ROE ra = Some x" and "ROE rb = Some y" and "x < y"
  shows "label_rank (classification ra) \<le> label_rank (classification rb)
         \<and> label_rank (classification rb) \<le> 2"
  unfolding classification_row [OF assms(1)] classification_row [OF assms(2)] assms(3,4)
  using classify_roe_mono [OF assms(5)] label_rank_tier by blast

theorem classification_monotone_witness:
  "preprocess_sbp_data five_banks ! 1 \<in> set (preprocess_sbp_data five_banks)
   \<and> preprocess_sbp_data five_banks ! 2 \<in> set (preprocess_sbp_data five_banks)
   \<and> ROE (preprocess_sbp_data five_banks ! 1) = Some (1 / 20)
   \<and> ROE (preprocess_sbp_data five_banks ! 2) = Some (1 / 5)
   \<and> (1 / 20 :: real) < 1 / 5
   \<and> label_rank (classification (preprocess_sbp_data five_banks ! 1))
       \<le> label_rank (classification (preprocess_sbp_data five_banks ! 2))"
proof -
  have a: "preprocess_sbp_data five_banks ! 1 \<in> set (preprocess_sbp_data five_banks)"
    and b: "preprocess_sbp_data five_banks ! 2 \<in> set (preprocess_sbp_data five_banks)"
    and x: "ROE (preprocess_sbp_data five_banks ! 1) = Some (1 / 20)"
    and y: "ROE (preprocess_sbp_data five_banks ! 2) = Some (1 / 5)"
    by (simp_all add: five_banks_rows)
  have lt: "(1 / 20 :: real) < 1 / 5" by simp
  show ?thesis using a b x y lt classification_monotone [OF a b x y lt] by blast
qed

subsection \<open>Return on equity\<close>




lemma adjusted_ROE_row:
  assumes "r \<in> set (preprocess_sbp_data df)"
  shows "adjusted_ROE r =
           (if denom_adjusted (pivot_table df) (row_key r) \<noteq> 0
            then mul_nan (ROE r) (Some (credit_locales (pivot_table df) (row_key r)
                                         / denom_adjusted (pivot_table df) (row_key r)))
            else None)"
proof -
  from assms obtain k where r: "r = result_row (pivot_table df) k"
    unfolding rows_iff by blast
  show ?thesis
    unfolding r row_key_result_row by (simp add: result_row_def adjusted_ROE_series_def)
qed

text \<open>
  Claim C9. In every row of the result with a null ROE, the adjusted ROE is null too,
  whatever the credit-portfolio denominator is.
\<close>

theorem adjusted_roe_null_when_roe_null:
  assumes "r \<in> set (preprocess_sbp_data df)" and "ROE r = None"
  shows "adjusted_ROE r = None"
  by (simp add: adjusted_ROE_row [OF assms(1)] assms(2) mul_nan_def)

theorem adjusted_roe_null_when_roe_null_witness:
  "preprocess_sbp_data five_banks ! 3 \<in> set (preprocess_sbp_data five_banks)
   \<and> ROE (preprocess_sbp_data five_banks ! 3) = None
   \<and> denom_adjusted (pivot_table five_banks) (''D'', 2023, 1) = 7
   \<and> adjusted_ROE (preprocess_sbp_data five_banks ! 3) = None"
proof -
  have h: "preprocess_sbp_data five_banks ! 3 \<in> set (preprocess_sbp_data five_banks)"
    and n: "ROE (preprocess_sbp_data five_banks ! 3) = None"
    by (simp_all add: five_banks_rows)
  have d: "denom_adjusted (pivot_table five_banks) (''D'', 2023, 1) = 7"
    by (simp add: denom_adjusted_def credit_locales_def get_col_sum group_of_def
        five_banks_def two_banks_def line_item_def key_of_def col_of_def valor_or_zero_def)
  show ?thesis using h n d adjusted_roe_null_when_roe_null [OF h n] by blast
qed

subsection \<open>Equal thresholds\<close>

text \<open>
  Claim C10. With fewer than three non-null ROE values both thresholds are 0; and
  whenever the two thresholds are equal no row is labelled "Medium performance": a null
  ROE gives "Unknown", an ROE up to the threshold "Low performance" and an ROE above it
  "High performance".
\<close>

theorem equal_thresholds_no_medium:
  assumes "r \<in> set (preprocess_sbp_data df)"
  shows "let t = dropna (map ROE (preprocess_sbp_data df));
             p33 = fst (thresholds t); p66 = snd (thresholds t)
         in (length t < 3 \<longrightarrow> p33 = 0 \<and> p66 = 0)
          \<and> (p33 = p66 \<longrightarrow>
               classification r \<noteq> ''Medium performance''
             \<and> (ROE r = None \<longrightarrow> classification r = ''Unknown'')
             \<and> (\<forall>x. ROE r = Some x \<and> x \<le> p33 \<longrightarrow> classification r = ''Low performance'')
             \<and> (\<forall>x. ROE r = Some x \<and> p33 < x \<longrightarrow> classification r = ''High performance''))"
proof -
  define t where "t = dropna (map ROE (preprocess_sbp_data df))"
  define p33 where "p33 = fst (thresholds t)"
  define p66 where "p66 = snd (thresholds t)"
  have cls: "classification r = classify_roe p33 p66 (ROE r)"
    unfolding p33_def p66_def t_def by (rule classification_row [OF assms])
  have small: "length t < 3 \<longrightarrow> p33 = 0 \<and> p66 = 0"
    by (simp add: p33_def p66_def thresholds_default)
  have eq: "classification r \<noteq> ''Medium performance''
             \<and> (ROE r = None \<longrightarrow> classification r = ''Unknown'')
             \<and> (\<forall>x. ROE r = Some x \<and> x \<le> p33 \<longrightarrow> classification r = ''Low performance'')
             \<and> (\<forall>x. ROE r = Some x \<and> p33 < x \<longrightarrow> classification r = ''High performance'')"
    if "p33 = p66"
    unfolding cls that [symmetric]
    by (simp add: classify_roe_def split: option.split)
  show ?thesis
    unfolding Let_def t_def [symmetric] p33_def [symmetric] p66_def [symmetric]
    using small eq by blast
qed

theorem equal_thresholds_no_medium_witness:
  "preprocess_sbp_data two_banks ! 1 \<in> set (preprocess_sbp_data two_banks)
   \<and> length (dropna (map ROE (preprocess_sbp_data two_banks))) < 3
   \<and> fst (thresholds (dropna (map ROE (preprocess_sbp_data two_banks))))
       = snd (thresholds (dropna (map ROE (preprocess_sbp_data two_banks))))
   \<and> classification (preprocess_sbp_data two_banks ! 1) \<noteq> ''Medium performance''"
proof -
  have h: "preprocess_sbp_data two_banks ! 1 \<in> set (preprocess_sbp_data two_banks)"
    by (simp add: two_banks_rows)
  have l: "length (dropna (map ROE (preprocess_sbp_data two_banks))) < 3"
    by (simp add: two_banks_temp_roe)
  show ?thesis
    using h l equal_thresholds_no_medium [OF h] unfolding Let_def by (metis (no_types, lifting))
qed

end
